theory Spec2Isabelle
  imports Main "HOL-Library.Sublist"
begin

section \<open>JavaScript values\<close>

text \<open>
  The page object \<^verbatim>\<open>cypress/pages/practice-form.js\<close> reads its inputs from plain
  objects (\<^verbatim>\<open>formValues\<close>, \<^verbatim>\<open>expectedValues\<close>) whose properties hold strings,
  lists, or nothing at all. The values are modelled by the fragment of JavaScript that
  a JSON fixture can hold, plus \<^verbatim>\<open>undefined\<close>; numbers are left out (their
  string conversion is floating point).
\<close>

datatype jsval =
    JUndefined
  | JNull
  | JBool bool
  | JStr string
  | JArr "jsval list"

datatype error = TypeError

text \<open>\<^verbatim>\<open>if (v)\<close>: the empty string is falsy, every array (also the empty one) is truthy.\<close>

fun truthy :: "jsval \<Rightarrow> bool" where
  "truthy JUndefined = False"
| "truthy JNull = False"
| "truthy (JBool b) = b"
| "truthy (JStr s) = (s \<noteq> [])"
| "truthy (JArr xs) = True"

text \<open>
  \<^verbatim>\<open>parts.join(sep)\<close> on strings already converted: the separator goes between
  consecutive parts, also around empty ones.
\<close>

fun join_strings :: "string \<Rightarrow> string list \<Rightarrow> string" where
  "join_strings sep [] = []"
| "join_strings sep [p] = p"
| "join_strings sep (p # q # ps) = p @ sep @ join_strings sep (q # ps)"

text \<open>
  \<^verbatim>\<open>String(v)\<close>. An array converts by joining its elements with a comma, where
  \<^verbatim>\<open>undefined\<close> and \<^verbatim>\<open>null\<close> elements give the empty string.
\<close>

fun ToString :: "jsval \<Rightarrow> string"
  and elementStrings :: "jsval list \<Rightarrow> string list" where
  "ToString JUndefined = ''undefined''"
| "ToString JNull = ''null''"
| "ToString (JBool b) = (if b then ''true'' else ''false'')"
| "ToString (JStr s) = s"
| "ToString (JArr xs) = join_strings '','' (elementStrings xs)"
| "elementStrings [] = []"
| "elementStrings (x # xs) =
     (if x = JUndefined \<or> x = JNull then [] else ToString x) # elementStrings xs"

text \<open>\<^verbatim>\<open>arr.join(sep)\<close> with a string separator.\<close>

definition array_join :: "jsval list \<Rightarrow> string \<Rightarrow> string" where
  "array_join xs sep = join_strings sep (elementStrings xs)"

text \<open>
  An object is a finite map from property names to values; reading a property that the
  object does not have gives \<^verbatim>\<open>undefined\<close>.
\<close>

type_synonym jsobject = "string \<rightharpoonup> jsval"

definition getProp :: "jsobject \<Rightarrow> string \<Rightarrow> jsval" where
  "getProp obj k = (case obj k of None \<Rightarrow> JUndefined | Some v \<Rightarrow> v)"


section \<open>The browser-automation commands\<close>

text \<open>
  Every \<^verbatim>\<open>cy.*\<close> call and every chained action is one command. A function of the
  page object is modelled by the list of commands it makes the browser run, in the order
  in which they run. An exception thrown while the commands are being issued is
  \<open>Inl\<close>: the test fails at that point, before any of them has run.
\<close>

datatype cy_cmd =
    CyVisit string
  | CyGet jsval
  | CyContains jsval
  | CySiblings string
  | CyWrap jsval
  | CyType jsval
  | CyClick bool
  | CySelectDate jsval
  | CyAttachFile jsval
  | CyShouldContain string
  | CyShouldHaveLength nat
  | TableGetCell string string string
  | ExpectContain jsval
  | ExpectEmpty

subsection \<open>Page element selectors\<close>

definition url :: string where
  "url = ''automation-practice-form''"

definition pageHeader :: string where
  "pageHeader = ''.main-header''"

definition pageTitle :: string where
  "pageTitle = ''Practice Form''"

definition form :: "(string \<times> string) list" where
  "form =
    [(''firstName'', ''#firstName''),
     (''lastName'', ''#lastName''),
     (''email'', ''#userEmail''),
     (''gender'', ''[type=\"radio\"]''),
     (''mobile'', ''#userNumber''),
     (''dob'', ''#dateOfBirthInput''),
     (''subjects'', ''#subjectsContainer''),
     (''subjectsDropDown'', ''.subjects-auto-complete__menu''),
     (''hobbies'', ''[type=\"checkbox\"]''),
     (''picture'', ''#uploadPicture''),
     (''address'', ''#currentAddress''),
     (''state'', ''#state''),
     (''city'', ''#city'')]"

text \<open>\<^verbatim>\<open>form[field]\<close>, a selector or \<^verbatim>\<open>undefined\<close>.\<close>

definition form_at :: "string \<Rightarrow> jsval" where
  "form_at field = (case map_of form field of None \<Rightarrow> JUndefined | Some sel \<Rightarrow> JStr sel)"

definition submitButton :: string where
  "submitButton = ''#submit''"

definition modal :: string where
  "modal = ''.modal-content''"

subsection \<open>Filling the form\<close>

text \<open>
  The functions of the source, each under its own name: \<^verbatim>\<open>visit\<close> (line 40),
  \<^verbatim>\<open>selectGender\<close> (line 81), \<^verbatim>\<open>selectSubjects\<close> (line 98),
  \<^verbatim>\<open>selectHobbies\<close> (line 117), \<^verbatim>\<open>uploadPicture\<close> (line 131),
  \<^verbatim>\<open>selectLocation\<close> (line 148) and \<^verbatim>\<open>fill\<close> (line 50), which calls
  them. The body of a \<^verbatim>\<open>forEach\<close> is a step function, and the loop is its
  \<open>fold\<close> over the list.
\<close>

definition visit :: "cy_cmd list" where
  "visit = [CyVisit url, CyGet (JStr pageHeader), CyShouldContain pageTitle]"

definition selectGender :: "jsval \<Rightarrow> cy_cmd list" where
  "selectGender gender =
     (if \<not> truthy gender then []
      else [CyGet (JStr (ToString (form_at ''gender'') @ ''[value=\"'' @ ToString gender @ ''\"]'')),
            CyClick True])"

text \<open>
  The body of the loop over the subjects: it adds one subject's commands to those
  issued so far.
\<close>

definition subject_step :: "jsval \<Rightarrow> cy_cmd list \<Rightarrow> cy_cmd list" where
  "subject_step subject issued =
     issued @
       [CyGet (form_at ''subjects''), CyType subject,
        CyGet (form_at ''subjectsDropDown''), CyShouldHaveLength 1, CyClick False]"

text \<open>
  \<^verbatim>\<open>subjects = []\<close> replaces \<^verbatim>\<open>undefined\<close> only; \<^verbatim>\<open>forEach\<close> exists on
  arrays only, so that any other value throws.
\<close>

definition selectSubjects :: "jsval \<Rightarrow> error + cy_cmd list" where
  "selectSubjects arg =
     (let subjects = (if arg = JUndefined then JArr [] else arg)
      in case subjects of
           JArr xs \<Rightarrow> Inr (fold subject_step xs [])
         | _ \<Rightarrow> Inl TypeError)"

definition hobby_step :: "jsval \<Rightarrow> cy_cmd list \<Rightarrow> cy_cmd list" where
  "hobby_step hobby issued =
     issued @ [CyContains hobby, CySiblings (ToString (form_at ''hobbies'')), CyClick True]"

definition selectHobbies :: "jsval \<Rightarrow> error + cy_cmd list" where
  "selectHobbies arg =
     (let hobbies = (if arg = JUndefined then JArr [] else arg)
      in case hobbies of
           JArr xs \<Rightarrow> Inr (fold hobby_step xs [])
         | _ \<Rightarrow> Inl TypeError)"

definition uploadPicture :: "jsval \<Rightarrow> cy_cmd list" where
  "uploadPicture file =
     (if \<not> truthy file then []
      else [CyGet (form_at ''picture''), CyAttachFile file])"

definition selectLocation :: "jsval \<Rightarrow> jsval \<Rightarrow> cy_cmd list" where
  "selectLocation state city =
     (if truthy state then
        [CyGet (form_at ''state''), CyType (JStr (ToString state @ ''{enter}''))] @
        (if truthy city then
           [CyGet (form_at ''city''), CyType (JStr (ToString city @ ''{enter}''))]
         else [])
      else [])"

text \<open>
  The fixtures \<^verbatim>\<open>default-values.json\<close> and \<^verbatim>\<open>field-types.json\<close> are parameters:
  the default form values and the list \<^verbatim>\<open>fieldTypes.text\<close>.
\<close>

record fixtures =
  defaultValues :: jsobject
  text_fields :: "string list"

text \<open>
  The body of the loop over the text inputs. The callback of \<^verbatim>\<open>then\<close> runs right
  after the \<^verbatim>\<open>wrap\<close> it is chained to, so its commands come before those of the
  next field.
\<close>

definition text_step :: "jsobject \<Rightarrow> string \<Rightarrow> cy_cmd list \<Rightarrow> cy_cmd list" where
  "text_step formValues field issued =
     (let v = getProp formValues field
      in issued @ [CyWrap v] @ (if truthy v then [CyGet (form_at field), CyType v] else []))"

text \<open>An omitted argument is \<open>None\<close> and takes the default values.\<close>

definition fill :: "fixtures \<Rightarrow> jsobject option \<Rightarrow> error + cy_cmd list" where
  "fill fx arg =
     (let formValues = (case arg of None \<Rightarrow> defaultValues fx | Some obj \<Rightarrow> obj);
          texts = fold (text_step formValues) (text_fields fx) [];
          dob = (if truthy (getProp formValues ''dob'')
                 then [CyGet (form_at ''dob''), CySelectDate (getProp formValues ''dob'')]
                 else []);
          gender = selectGender (getProp formValues ''gender'')
      in case selectSubjects (getProp formValues ''subjects'') of
           Inl e \<Rightarrow> Inl e
         | Inr subjects \<Rightarrow>
             (case selectHobbies (getProp formValues ''hobbies'') of
                Inl e \<Rightarrow> Inl e
              | Inr hobbies \<Rightarrow>
                  Inr (texts @ dob @ gender @ subjects @ hobbies @
                       uploadPicture (getProp formValues ''picture'') @
                       selectLocation (getProp formValues ''state'') (getProp formValues ''city''))))"


section \<open>Validating the submission\<close>

text \<open>
  \<^verbatim>\<open>validateSubmission\<close> (lines 168 to 261) fills two arrays, going through the
  direct mappings (lines 173 to 184), the concatenated ones (187 to 212), the list ones
  (214 to 229), the picture (232 to 239) and the date of birth (242 to 245), and then
  asserts on the table of results (248 to 259).
\<close>

subsection \<open>The submission mapping\<close>

text \<open>
  The fixture \<^verbatim>\<open>submission-mapping.json\<close> is a parameter. Its \<^verbatim>\<open>direct\<close> and
  \<^verbatim>\<open>list\<close> entries are \<^verbatim>\<open>{selector, label}\<close>, its \<^verbatim>\<open>concat\<close> entries are
  \<^verbatim>\<open>{selectors, label, delimeter}\<close> (the property is spelt so in the code), and
  \<^verbatim>\<open>picture\<close> and \<^verbatim>\<open>dob\<close> are labels.
\<close>

record labelled =
  label :: string

record mapping = labelled +
  selector :: string

record concat_mapping = labelled +
  selectors :: "string list"
  delimeter :: string

record submission_mapping =
  sm_direct :: "mapping list"
  sm_concat :: "concat_mapping list"
  sm_list :: "mapping list"
  sm_picture :: string
  sm_dob :: string

text \<open>The two arrays that the validation fills.\<close>

record populated = labelled +
  expValue :: jsval

record fields =
  populatedFields :: "populated list"
  missingFields :: "string list"

definition push_populated :: "string \<Rightarrow> jsval \<Rightarrow> fields \<Rightarrow> fields" where
  "push_populated l v st =
     st\<lparr>populatedFields := populatedFields st @ [\<lparr>label = l, expValue = v\<rparr>]\<rparr>"

definition push_missing :: "string \<Rightarrow> fields \<Rightarrow> fields" where
  "push_missing l st = st\<lparr>missingFields := missingFields st @ [l]\<rparr>"

subsection \<open>Direct fields\<close>

definition direct_step :: "jsobject \<Rightarrow> mapping \<Rightarrow> fields \<Rightarrow> fields" where
  "direct_step expectedValues m st =
     (if truthy (getProp expectedValues (selector m))
      then push_populated (label m) (getProp expectedValues (selector m)) st
      else push_missing (label m) st)"

subsection \<open>Concatenated fields\<close>

text \<open>
  The inner loop: \<open>acc\<close> is the string \<^verbatim>\<open>expValue\<close> built so far. A truthy value
  that is not an array is a non-empty string or \<^verbatim>\<open>true\<close>, and \<^verbatim>\<open>+=\<close> converts it
  to a string.
\<close>

definition concat_value :: "jsobject \<Rightarrow> string \<Rightarrow> string \<Rightarrow> jsval" where
  "concat_value expectedValues delim sel =
     (let rawvalue = getProp expectedValues sel
      in case rawvalue of JArr xs \<Rightarrow> JStr (array_join xs delim) | _ \<Rightarrow> rawvalue)"

definition selector_step :: "jsobject \<Rightarrow> string \<Rightarrow> string \<Rightarrow> string \<Rightarrow> string" where
  "selector_step expectedValues delim sel acc =
     (let v = concat_value expectedValues delim sel
      in if truthy v
         then acc @ (if length acc = 0 then ToString v else delim @ ToString v)
         else acc)"

definition concat_expValue :: "jsobject \<Rightarrow> concat_mapping \<Rightarrow> string" where
  "concat_expValue expectedValues m =
     fold (selector_step expectedValues (delimeter m)) (selectors m) []"

definition concat_step :: "jsobject \<Rightarrow> concat_mapping \<Rightarrow> fields \<Rightarrow> fields" where
  "concat_step expectedValues m st =
     (let v = concat_expValue expectedValues m
      in if truthy (JStr v) then push_populated (label m) (JStr v) st
         else push_missing (label m) st)"

subsection \<open>List fields\<close>

text \<open>
  \<^verbatim>\<open>values.forEach\<close> is called on every truthy value: on an array it pushes one
  record per element (none for the empty array), on a non-empty string or \<^verbatim>\<open>true\<close>
  it throws.
\<close>

definition list_step :: "jsobject \<Rightarrow> mapping \<Rightarrow> fields \<Rightarrow> error + fields" where
  "list_step expectedValues m st =
     (let vals = getProp expectedValues (selector m)
      in if truthy vals
         then (case vals of
                 JArr xs \<Rightarrow> Inr (fold (push_populated (label m)) xs st)
               | _ \<Rightarrow> Inl TypeError)
         else Inr (push_missing (label m) st))"

text \<open>A loop whose body may throw stops at the first exception.\<close>

fun forEach_throwing :: "('a \<Rightarrow> 's \<Rightarrow> error + 's) \<Rightarrow> 'a list \<Rightarrow> 's \<Rightarrow> error + 's" where
  "forEach_throwing body [] st = Inr st"
| "forEach_throwing body (x # xs) st =
     (case body x st of Inl e \<Rightarrow> Inl e | Inr st' \<Rightarrow> forEach_throwing body xs st')"

subsection \<open>The picture\<close>

text \<open>
  \<^verbatim>\<open>lastIndexOf\<close> scans for the last position of an element, \<open>-1\<close> when there is
  none; \<^verbatim>\<open>slice(start)\<close> keeps what is from \<open>start\<close> on, a negative \<open>start\<close>
  counting from the end. Strings and arrays both have the two methods, booleans have
  neither.
\<close>

fun last_scan :: "'a \<Rightarrow> 'a list \<Rightarrow> nat \<Rightarrow> int \<Rightarrow> int" where
  "last_scan x [] i found = found"
| "last_scan x (y # ys) i found = last_scan x ys (Suc i) (if y = x then int i else found)"

definition lastIndexOf :: "'a list \<Rightarrow> 'a \<Rightarrow> int" where
  "lastIndexOf xs x = last_scan x xs 0 (- 1)"

definition slice :: "'a list \<Rightarrow> int \<Rightarrow> 'a list" where
  "slice xs start =
     (let n = int (length xs);
          k = (if start < 0 then max (n + start) 0 else min start n)
      in drop (nat k) xs)"

definition picture_step :: "submission_mapping \<Rightarrow> jsobject \<Rightarrow> fields \<Rightarrow> error + fields" where
  "picture_step sm expectedValues st =
     (let pic = getProp expectedValues ''picture''
      in if truthy pic
         then (case pic of
                 JStr s \<Rightarrow>
                   Inr (push_populated (sm_picture sm)
                          (JStr (slice s (lastIndexOf s (CHR ''/'') + 1))) st)
               | JArr xs \<Rightarrow>
                   Inr (push_populated (sm_picture sm)
                          (JArr (slice xs (lastIndexOf xs (JStr ''/'') + 1))) st)
               | _ \<Rightarrow> Inl TypeError)
         else Inr (push_missing (sm_picture sm) st))"


subsection \<open>The date of birth\<close>

text \<open>
  Modelled from the spec: the date library \<^verbatim>\<open>dayjs\<close> is an external collaborator
  that parses an optional date input, defaulting to the current date, and renders it as
  \<^verbatim>\<open>DD Month,YYYY\<close>. The clock and the parser are parameters; \<^verbatim>\<open>undefined\<close> is
  the current date, \<^verbatim>\<open>null\<close> and whatever the parser rejects are the invalid date.
  The format \<^verbatim>\<open>DD MMMM,YYYY\<close> is the day of the month on two digits, a space, the
  English name of the month, a comma and the year on four digits.
\<close>

datatype month =
    January | February | March | April | May | June
  | July | August | September | October | November | December

record date =
  year :: nat
  month :: month
  day :: nat

record dayjs_lib =
  today :: date
  parse :: "jsval \<Rightarrow> date option"

definition dayjs :: "dayjs_lib \<Rightarrow> jsval \<Rightarrow> date option" where
  "dayjs lib v =
     (case v of JUndefined \<Rightarrow> Some (today lib) | JNull \<Rightarrow> None | _ \<Rightarrow> parse lib v)"

fun month_name :: "month \<Rightarrow> string" where
  "month_name January = ''January''"
| "month_name February = ''February''"
| "month_name March = ''March''"
| "month_name April = ''April''"
| "month_name May = ''May''"
| "month_name June = ''June''"
| "month_name July = ''July''"
| "month_name August = ''August''"
| "month_name September = ''September''"
| "month_name October = ''October''"
| "month_name November = ''November''"
| "month_name December = ''December''"

fun show_nat :: "nat \<Rightarrow> string" where
  "show_nat n =
     (if n < 10 then [''0123456789'' ! n]
      else show_nat (n div 10) @ [''0123456789'' ! (n mod 10)])"

declare show_nat.simps [simp del]

definition padStart :: "string \<Rightarrow> nat \<Rightarrow> char \<Rightarrow> string" where
  "padStart s n c = replicate (n - length s) c @ s"

definition format_DD_MMMM_YYYY :: "date option \<Rightarrow> string" where
  "format_DD_MMMM_YYYY d =
     (case d of
        None \<Rightarrow> ''Invalid Date''
      | Some d \<Rightarrow>
          padStart (show_nat (day d)) 2 (CHR ''0'') @ '' '' @ month_name (month d) @ '','' @
          padStart (show_nat (year d)) 4 (CHR ''0''))"

definition dob_step :: "submission_mapping \<Rightarrow> dayjs_lib \<Rightarrow> jsobject \<Rightarrow> fields \<Rightarrow> fields" where
  "dob_step sm lib expectedValues st =
     push_populated (sm_dob sm)
       (JStr (format_DD_MMMM_YYYY (dayjs lib (getProp expectedValues ''dob'')))) st"

subsection \<open>The whole validation\<close>

text \<open>
  The first part of \<^verbatim>\<open>validateSubmission\<close> fills the two arrays: the direct, the
  concatenated and the list mappings, then the picture and the date of birth.
\<close>

definition data_driven :: "submission_mapping \<Rightarrow> jsobject \<Rightarrow> error + fields" where
  "data_driven sm expectedValues =
     (let st0 = \<lparr>populatedFields = [], missingFields = []\<rparr>;
          st1 = fold (direct_step expectedValues) (sm_direct sm) st0;
          st2 = fold (concat_step expectedValues) (sm_concat sm) st1
      in forEach_throwing (list_step expectedValues) (sm_list sm) st2)"

definition submissionFields ::
  "submission_mapping \<Rightarrow> dayjs_lib \<Rightarrow> jsobject \<Rightarrow> error + fields" where
  "submissionFields sm lib expectedValues =
     (case data_driven sm expectedValues of
        Inl e \<Rightarrow> Inl e
      | Inr st3 \<Rightarrow>
          (case picture_step sm expectedValues st3 of
             Inl e \<Rightarrow> Inl e
           | Inr st4 \<Rightarrow> Inr (dob_step sm lib expectedValues st4)))"

text \<open>
  The second part turns the arrays into assertions on the table of results: the cell of
  every populated label contains the expected value, the cell of every missing label is
  empty.
\<close>

definition expect_populated :: "populated \<Rightarrow> cy_cmd list \<Rightarrow> cy_cmd list" where
  "expect_populated m issued =
     issued @ [TableGetCell ''Label'' (label m) ''Values'', ExpectContain (expValue m)]"

definition expect_missing :: "string \<Rightarrow> cy_cmd list \<Rightarrow> cy_cmd list" where
  "expect_missing field issued =
     issued @ [TableGetCell ''Label'' field ''Values'', ExpectEmpty]"

definition validateSubmission ::
  "submission_mapping \<Rightarrow> dayjs_lib \<Rightarrow> jsobject \<Rightarrow> error + cy_cmd list" where
  "validateSubmission sm lib expectedValues =
     (case submissionFields sm lib expectedValues of
        Inl e \<Rightarrow> Inl e
      | Inr st \<Rightarrow>
          Inr (fold expect_missing (missingFields st)
                 (fold expect_populated (populatedFields st) [])))"


subsection \<open>Calls one after the other\<close>




section \<open>Notions of the specification\<close>

subsection \<open>Interactions with a control\<close>

text \<open>
  The selector a command addresses, if any. A command list interacts with a control when
  one of its commands addresses a selector that starts with the selector of the control
  (the radio inputs are addressed by their selector followed by a value filter).
\<close>

fun cmd_selector :: "cy_cmd \<Rightarrow> string option" where
  "cmd_selector (CyGet (JStr s)) = Some s"
| "cmd_selector (CySiblings s) = Some s"
| "cmd_selector c = None"

definition interacts_with :: "string \<Rightarrow> cy_cmd list \<Rightarrow> bool" where
  "interacts_with sel t =
     list_ex (\<lambda>c. case cmd_selector c of None \<Rightarrow> False | Some s \<Rightarrow> prefix sel s) t"

text \<open>
  One cycle of \<^verbatim>\<open>selectSubjects\<close> in the words of the specification: type the subject
  into the type-ahead field, assert that the drop-down is matched once, click it.
\<close>

definition typeConfirmCycle :: "jsval \<Rightarrow> cy_cmd list" where
  "typeConfirmCycle subject =
     [CyGet (JStr ''#subjectsContainer''), CyType subject,
      CyGet (JStr ''.subjects-auto-complete__menu''), CyShouldHaveLength 1, CyClick False]"

subsection \<open>Concatenation in the words of the specification\<close>

text \<open>
  The part a selector contributes: its list joined with the delimiter, or its value when
  it is truthy, and nothing otherwise. The expected string is the non-empty parts with
  the delimiter between them.
\<close>

definition concat_part :: "jsobject \<Rightarrow> string \<Rightarrow> string \<Rightarrow> string" where
  "concat_part expectedValues delim sel =
     (case getProp expectedValues sel of
        JArr xs \<Rightarrow> array_join xs delim
      | v \<Rightarrow> if truthy v then ToString v else [])"

definition spec_concat :: "jsobject \<Rightarrow> concat_mapping \<Rightarrow> string" where
  "spec_concat expectedValues m =
     join_strings (delimeter m)
       (filter (\<lambda>p. p \<noteq> []) (map (concat_part expectedValues (delimeter m)) (selectors m)))"

fun falsy_or_empty :: "jsval \<Rightarrow> bool" where
  "falsy_or_empty (JArr xs) = (xs = [])"
| "falsy_or_empty v = (\<not> truthy v)"

subsection \<open>Well-typed expected values\<close>

text \<open>
  The value of a list mapping is a list or nothing, and the picture is a path or nothing:
  on such values the validation throws no exception.
\<close>

fun list_value_ok :: "jsval \<Rightarrow> bool" where
  "list_value_ok (JArr xs) = True"
| "list_value_ok v = (\<not> truthy v)"

fun picture_value_ok :: "jsval \<Rightarrow> bool" where
  "picture_value_ok (JBool b) = (\<not> b)"
| "picture_value_ok v = True"

definition list_values_ok :: "submission_mapping \<Rightarrow> jsobject \<Rightarrow> bool" where
  "list_values_ok sm expectedValues =
     list_all (\<lambda>m. list_value_ok (getProp expectedValues (selector m))) (sm_list sm)"

definition well_typed :: "submission_mapping \<Rightarrow> jsobject \<Rightarrow> bool" where
  "well_typed sm expectedValues =
     (list_values_ok sm expectedValues \<and> picture_value_ok (getProp expectedValues ''picture''))"

text \<open>The records of one list mapping, one per element of its list.\<close>

definition list_records :: "jsobject \<Rightarrow> mapping \<Rightarrow> populated list" where
  "list_records expectedValues m =
     (case getProp expectedValues (selector m) of
        JArr xs \<Rightarrow> map (\<lambda>v. \<lparr>label = label m, expValue = v\<rparr>) xs
      | _ \<Rightarrow> [])"

text \<open>The labels of the mapping other than the one of the date of birth.\<close>

definition other_labels :: "submission_mapping \<Rightarrow> string list" where
  "other_labels sm =
     map label (sm_direct sm) @ map label (sm_concat sm) @ map label (sm_list sm) @
     [sm_picture sm]"

text \<open>The base name of a path: what follows its last slash.\<close>

definition basename :: "string \<Rightarrow> string" where
  "basename s = rev (takeWhile (\<lambda>c. c \<noteq> CHR ''/'') (rev s))"

subsection \<open>Example fixtures\<close>

text \<open>
  A submission mapping with one entry of each kind and a clock, for the closed instances
  below. The parser of the clock rejects everything.
\<close>

definition sample_mapping :: submission_mapping where
  "sample_mapping =
     \<lparr>sm_direct = [\<lparr>label = ''Student Email'', selector = ''email''\<rparr>],
      sm_concat = [\<lparr>label = ''Student Name'', selectors = [''firstName'', ''lastName''],
                    delimeter = '' ''\<rparr>],
      sm_list = [\<lparr>label = ''Hobbies'', selector = ''hobbies''\<rparr>],
      sm_picture = ''Picture'',
      sm_dob = ''Date of Birth''\<rparr>"

definition sample_clock :: dayjs_lib where
  "sample_clock = \<lparr>today = \<lparr>year = 2026, month = November, day = 3\<rparr>, parse = (\<lambda>v. None)\<rparr>"

subsection \<open>Frame of the form filling\<close>

text \<open>
  The selector of a control of the form, and the controls that \<^verbatim>\<open>fill\<close> drives with
  code of their own. The fixture of the text inputs is well formed when each of its names
  is a key of \<open>form\<close> other than these.
\<close>

definition control :: "string \<Rightarrow> string" where
  "control field = ToString (form_at field)"

definition non_text_controls :: "string list" where
  "non_text_controls =
     [''gender'', ''dob'', ''subjects'', ''subjectsDropDown'', ''hobbies'', ''picture'',
      ''state'', ''city'']"

definition text_fixture_ok :: "fixtures \<Rightarrow> bool" where
  "text_fixture_ok fx =
     list_all (\<lambda>f. f \<in> set (map fst form) \<and> f \<notin> set non_text_controls) (text_fields fx)"

text \<open>A value is typed into a selector when the two commands run one after the other.\<close>

definition typed_into :: "jsval \<Rightarrow> jsval \<Rightarrow> cy_cmd list \<Rightarrow> bool" where
  "typed_into sel v t = sublist [CyGet sel, CyType v] t"

text \<open>The values on which \<^verbatim>\<open>selectSubjects\<close> and \<^verbatim>\<open>selectHobbies\<close> do not throw.\<close>

fun forEach_arg_ok :: "jsval \<Rightarrow> bool" where
  "forEach_arg_ok JUndefined = True"
| "forEach_arg_ok (JArr xs) = True"
| "forEach_arg_ok v = False"

definition formValues_of :: "fixtures \<Rightarrow> jsobject option \<Rightarrow> jsobject" where
  "formValues_of fx arg = (case arg of None \<Rightarrow> defaultValues fx | Some obj \<Rightarrow> obj)"

text \<open>Fixtures with two text inputs and no default value, for the closed instances.\<close>

definition sample_fixtures :: fixtures where
  "sample_fixtures = \<lparr>defaultValues = Map.empty, text_fields = [''firstName'', ''lastName'']\<rparr>"

section \<open>Properties of the form filling\<close>

lemma form_at_simps:
  "form_at ''firstName'' = JStr ''#firstName''"
  "form_at ''lastName'' = JStr ''#lastName''"
  "form_at ''email'' = JStr ''#userEmail''"
  "form_at ''gender'' = JStr ''[type=\"radio\"]''"
  "form_at ''mobile'' = JStr ''#userNumber''"
  "form_at ''dob'' = JStr ''#dateOfBirthInput''"
  "form_at ''subjects'' = JStr ''#subjectsContainer''"
  "form_at ''subjectsDropDown'' = JStr ''.subjects-auto-complete__menu''"
  "form_at ''hobbies'' = JStr ''[type=\"checkbox\"]''"
  "form_at ''picture'' = JStr ''#uploadPicture''"
  "form_at ''address'' = JStr ''#currentAddress''"
  "form_at ''state'' = JStr ''#state''"
  "form_at ''city'' = JStr ''#city''"
  by (simp_all add: form_at_def form_def)

subsection \<open>Subjects\<close>

lemma subject_step_cycle: "subject_step s issued = issued @ typeConfirmCycle s"
  by (simp add: subject_step_def typeConfirmCycle_def form_at_simps)

lemma fold_subject_step:
  "fold subject_step xs issued = issued @ concat (map typeConfirmCycle xs)"
  by (induction xs arbitrary: issued) (simp_all add: subject_step_cycle)

lemma length_concat_cycles: "length (concat (map typeConfirmCycle xs)) = 5 * length xs"
  by (induction xs) (simp_all add: typeConfirmCycle_def)

text \<open>
  Claim C7. For every list of subjects, \<^verbatim>\<open>selectSubjects\<close> runs one cycle per element,
  in the order of the list, each cycle complete before the next one starts: the commands
  are the cycles of the elements one after the other, five commands per subject. Without
  an argument it runs nothing.
\<close>

theorem selectSubjects_cycles:
  "selectSubjects (JArr xs) = Inr (concat (map typeConfirmCycle xs)) \<and>
   length (concat (map typeConfirmCycle xs)) = 5 * length xs \<and>
   selectSubjects JUndefined = Inr []"
  by (simp add: selectSubjects_def fold_subject_step length_concat_cycles)

text \<open>The two subjects of the specification give two cycles, Maths first.\<close>

theorem selectSubjects_cycles_witness:
  "selectSubjects (JArr [JStr ''Maths'', JStr ''Physics'']) =
     Inr (typeConfirmCycle (JStr ''Maths'') @ typeConfirmCycle (JStr ''Physics''))"
  using selectSubjects_cycles [of "[JStr ''Maths'', JStr ''Physics'']"] by simp

subsection \<open>Location\<close>

text \<open>
  Claim C6. \<^verbatim>\<open>selectLocation(state, city)\<close> runs nothing when the state is falsy,
  whatever the city. With a truthy state and a falsy city it types the state (followed
  by the enter key) into the state field and does nothing else. With both truthy it
  types the state first and the city after it. So the city field is addressed exactly
  when both are truthy, and the state field exactly when the state is.
\<close>

theorem selectLocation_gating:
  "(\<not> truthy state \<longrightarrow> selectLocation state city = []) \<and>
   (truthy state \<and> \<not> truthy city \<longrightarrow>
      selectLocation state city =
        [CyGet (JStr ''#state''), CyType (JStr (ToString state @ ''{enter}''))]) \<and>
   (truthy state \<and> truthy city \<longrightarrow>
      selectLocation state city =
        [CyGet (JStr ''#state''), CyType (JStr (ToString state @ ''{enter}'')),
         CyGet (JStr ''#city''), CyType (JStr (ToString city @ ''{enter}''))]) \<and>
   (interacts_with ''#state'' (selectLocation state city) \<longleftrightarrow> truthy state) \<and>
   (interacts_with ''#city'' (selectLocation state city) \<longleftrightarrow> truthy state \<and> truthy city)"
  by (simp add: selectLocation_def form_at_simps interacts_with_def)

text \<open>A city without a state touches nothing; a state without a city types the state only.\<close>

theorem selectLocation_gating_witness:
  "selectLocation JUndefined (JStr ''Delhi'') = [] \<and>
   selectLocation (JStr ''NCR'') JUndefined =
     [CyGet (JStr ''#state''), CyType (JStr ''NCR{enter}'')] \<and>
   \<not> interacts_with ''#city'' (selectLocation (JStr ''NCR'') JUndefined)"
  using selectLocation_gating [of JUndefined "JStr ''Delhi''"]
    selectLocation_gating [of "JStr ''NCR''" JUndefined]
  by (simp add: interacts_with_def)

subsection \<open>The whole form\<close>

lemma interacts_with_append:
  "interacts_with sel (a @ b) \<longleftrightarrow> interacts_with sel a \<or> interacts_with sel b"
  by (simp add: interacts_with_def)

lemma interacts_with_Nil: "\<not> interacts_with sel []"
  by (simp add: interacts_with_def)

lemma fold_text_step:
  "fold (text_step fv) flds issued =
     issued @ concat (map (\<lambda>f. CyWrap (getProp fv f) #
       (if truthy (getProp fv f) then [CyGet (form_at f), CyType (getProp fv f)] else [])) flds)"
  by (induction flds arbitrary: issued) (simp_all add: text_step_def Let_def)

lemma interacts_with_text_segments:
  "interacts_with sel (concat (map (\<lambda>f. CyWrap (getProp fv f) #
       (if truthy (getProp fv f) then [CyGet (form_at f), CyType (getProp fv f)] else [])) flds)) \<longleftrightarrow>
     (\<exists>f \<in> set flds. truthy (getProp fv f) \<and> interacts_with sel [CyGet (form_at f)])"
  by (induction flds) (auto simp: interacts_with_def)

lemma interacts_with_texts:
  "interacts_with sel (fold (text_step fv) flds []) \<longleftrightarrow>
     (\<exists>f \<in> set flds. truthy (getProp fv f) \<and> interacts_with sel [CyGet (form_at f)])"
  by (simp only: fold_text_step append_Nil interacts_with_text_segments)

lemma typed_into_texts:
  assumes "f \<in> set flds" and "truthy (getProp fv f)"
  shows "typed_into (form_at f) (getProp fv f) (fold (text_step fv) flds [] @ rest)"
proof -
  from assms(1) obtain fs1 fs2 where flds: "flds = fs1 @ f # fs2"
    by (auto dest: split_list)
  let ?seg = "\<lambda>f. CyWrap (getProp fv f) #
       (if truthy (getProp fv f) then [CyGet (form_at f), CyType (getProp fv f)] else [])"
  have "fold (text_step fv) flds [] = concat (map ?seg flds)"
    by (simp only: fold_text_step append_Nil)
  also have "\<dots> = (concat (map ?seg fs1) @ [CyWrap (getProp fv f)]) @
      [CyGet (form_at f), CyType (getProp fv f)] @ concat (map ?seg fs2)"
    using assms(2) by (simp add: flds)
  finally have eq: "fold (text_step fv) flds [] @ rest =
      (concat (map ?seg fs1) @ [CyWrap (getProp fv f)]) @
      [CyGet (form_at f), CyType (getProp fv f)] @ (concat (map ?seg fs2) @ rest)"
    by simp
  show ?thesis
    unfolding typed_into_def eq by (rule sublist_appendI)
qed

lemma fold_hobby_step:
  "fold hobby_step xs issued =
     issued @ concat (map (\<lambda>h. [CyContains h, CySiblings ''[type=\"checkbox\"]'', CyClick True]) xs)"
  by (induction xs arbitrary: issued) (simp_all add: hobby_step_def form_at_simps)

lemma interacts_with_cycle:
  "interacts_with sel (typeConfirmCycle x) \<longleftrightarrow>
     prefix sel ''#subjectsContainer'' \<or> prefix sel ''.subjects-auto-complete__menu''"
  by (simp add: interacts_with_def typeConfirmCycle_def)

lemma interacts_with_subjects:
  "interacts_with sel (concat (map typeConfirmCycle xs)) \<longleftrightarrow>
     xs \<noteq> [] \<and> (prefix sel ''#subjectsContainer'' \<or> prefix sel ''.subjects-auto-complete__menu'')"
proof (induction xs)
  case Nil
  show ?case by (simp add: interacts_with_def)
next
  case (Cons x xs)
  show ?case
    unfolding list.map concat.simps interacts_with_append Cons.IH interacts_with_cycle
    by blast
qed

lemma interacts_with_hobby_segment:
  "interacts_with sel [CyContains h, CySiblings ''[type=\"checkbox\"]'', CyClick True] \<longleftrightarrow>
     prefix sel ''[type=\"checkbox\"]''"
  by (simp add: interacts_with_def)

lemma interacts_with_hobby_segments:
  "interacts_with sel
     (concat (map (\<lambda>h. [CyContains h, CySiblings ''[type=\"checkbox\"]'', CyClick True]) xs)) \<longleftrightarrow>
   xs \<noteq> [] \<and> prefix sel ''[type=\"checkbox\"]''"
proof (induction xs)
  case Nil
  show ?case by (simp add: interacts_with_def)
next
  case (Cons x xs)
  show ?case
    unfolding list.map concat.simps interacts_with_append Cons.IH interacts_with_hobby_segment
    by blast
qed

lemma interacts_with_hobbies:
  "interacts_with sel (fold hobby_step xs []) \<longleftrightarrow> xs \<noteq> [] \<and> prefix sel ''[type=\"checkbox\"]''"
  by (simp only: fold_hobby_step append_Nil interacts_with_hobby_segments)

lemma selectSubjects_cases:
  "selectSubjects v = (if forEach_arg_ok v
     then Inr (concat (map typeConfirmCycle (case v of JArr xs \<Rightarrow> xs | _ \<Rightarrow> [])))
     else Inl TypeError)"
  by (cases v) (simp_all add: selectSubjects_def fold_subject_step)

lemma selectHobbies_cases:
  "selectHobbies v = (if forEach_arg_ok v
     then Inr (fold hobby_step (case v of JArr xs \<Rightarrow> xs | _ \<Rightarrow> []) [])
     else Inl TypeError)"
  by (cases v) (simp_all add: selectHobbies_def)

lemma text_control_cases:
  assumes "text_fixture_ok fx" and "f \<in> set (text_fields fx)"
  shows "f \<in> {''firstName'', ''lastName'', ''email'', ''mobile'', ''address''}"
proof -
  from assms have "f \<in> set (map fst form)" and "f \<notin> set non_text_controls"
    by (simp_all add: text_fixture_ok_def list_all_iff)
  then show ?thesis
    by (simp add: form_def non_text_controls_def)
qed

lemma interacts_with_get:
  "interacts_with sel [CyGet (JStr s)] \<longleftrightarrow> prefix sel s"
  "interacts_with sel [CyGet (JStr s), c] \<longleftrightarrow> prefix sel s \<or> interacts_with sel [c]"
  "\<not> interacts_with sel [CyType v]"
  "\<not> interacts_with sel [CyClick b]"
  "\<not> interacts_with sel [CySelectDate v]"
  "\<not> interacts_with sel [CyAttachFile v]"
  by (simp_all add: interacts_with_def)

lemma text_controls_distinct:
  assumes "f \<in> {''firstName'', ''lastName'', ''email'', ''mobile'', ''address''}"
    and "g \<in> {''firstName'', ''lastName'', ''email'', ''mobile'', ''address''}"
  shows "interacts_with (control f) [CyGet (form_at g)] \<longleftrightarrow> f = g"
  using assms
  by (elim insertE emptyE) (simp_all add: control_def form_at_simps interacts_with_get)

lemma text_controls_apart:
  assumes "f \<in> {''firstName'', ''lastName'', ''email'', ''mobile'', ''address''}"
  shows "\<not> prefix (control f) ''#dateOfBirthInput''"
    and "\<not> prefix (control f) (''[type=\"radio\"]'' @ rest)"
    and "\<not> prefix (control f) ''#subjectsContainer''"
    and "\<not> prefix (control f) ''.subjects-auto-complete__menu''"
    and "\<not> prefix (control f) ''[type=\"checkbox\"]''"
    and "\<not> prefix (control f) ''#uploadPicture''"
    and "\<not> prefix (control f) ''#state''"
    and "\<not> prefix (control f) ''#city''"
  using assms
  by (elim insertE emptyE; simp add: control_def form_at_simps)+

lemma interacts_with_dob:
  "interacts_with sel (if truthy d then [CyGet (form_at ''dob''), CySelectDate d] else []) \<longleftrightarrow>
     truthy d \<and> prefix sel ''#dateOfBirthInput''"
  by (simp add: interacts_with_def form_at_simps)

lemma interacts_with_gender:
  "interacts_with sel (selectGender g) \<longleftrightarrow>
     truthy g \<and> prefix sel (''[type=\"radio\"]'' @ ''[value=\"'' @ ToString g @ ''\"]'')"
  by (simp add: interacts_with_def selectGender_def form_at_simps)

lemma interacts_with_picture:
  "interacts_with sel (uploadPicture p) \<longleftrightarrow> truthy p \<and> prefix sel ''#uploadPicture''"
  by (simp add: interacts_with_def uploadPicture_def form_at_simps)

lemma interacts_with_location:
  "interacts_with sel (selectLocation s c) \<longleftrightarrow>
     truthy s \<and> (prefix sel ''#state'' \<or> truthy c \<and> prefix sel ''#city'')"
  by (simp add: interacts_with_def selectLocation_def form_at_simps)

lemma fill_cases:
  "fill fx arg =
     (if forEach_arg_ok (getProp (formValues_of fx arg) ''subjects'') \<and>
         forEach_arg_ok (getProp (formValues_of fx arg) ''hobbies'')
      then Inr (fold (text_step (formValues_of fx arg)) (text_fields fx) [] @
             (if truthy (getProp (formValues_of fx arg) ''dob'')
              then [CyGet (form_at ''dob''), CySelectDate (getProp (formValues_of fx arg) ''dob'')]
              else []) @
             selectGender (getProp (formValues_of fx arg) ''gender'') @
             concat (map typeConfirmCycle
               (case getProp (formValues_of fx arg) ''subjects'' of JArr xs \<Rightarrow> xs | _ \<Rightarrow> [])) @
             fold hobby_step
               (case getProp (formValues_of fx arg) ''hobbies'' of JArr xs \<Rightarrow> xs | _ \<Rightarrow> []) [] @
             uploadPicture (getProp (formValues_of fx arg) ''picture'') @
             selectLocation (getProp (formValues_of fx arg) ''state'')
               (getProp (formValues_of fx arg) ''city''))
      else Inl TypeError)"
  by (simp add: fill_def formValues_of_def [symmetric] selectSubjects_cases selectHobbies_cases
      Let_def)

lemma interacts_with_fill:
  assumes "fill fx arg = Inr t"
  shows "interacts_with sel t \<longleftrightarrow>
     (\<exists>f \<in> set (text_fields fx). truthy (getProp (formValues_of fx arg) f) \<and>
        interacts_with sel [CyGet (form_at f)]) \<or>
     truthy (getProp (formValues_of fx arg) ''dob'') \<and> prefix sel ''#dateOfBirthInput'' \<or>
     truthy (getProp (formValues_of fx arg) ''gender'') \<and>
       prefix sel (''[type=\"radio\"]'' @ ''[value=\"'' @
         ToString (getProp (formValues_of fx arg) ''gender'') @ ''\"]'') \<or>
     (case getProp (formValues_of fx arg) ''subjects'' of JArr xs \<Rightarrow> xs | _ \<Rightarrow> []) \<noteq> [] \<and>
       (prefix sel ''#subjectsContainer'' \<or> prefix sel ''.subjects-auto-complete__menu'') \<or>
     (case getProp (formValues_of fx arg) ''hobbies'' of JArr xs \<Rightarrow> xs | _ \<Rightarrow> []) \<noteq> [] \<and>
       prefix sel ''[type=\"checkbox\"]'' \<or>
     truthy (getProp (formValues_of fx arg) ''picture'') \<and> prefix sel ''#uploadPicture'' \<or>
     truthy (getProp (formValues_of fx arg) ''state'') \<and>
       (prefix sel ''#state'' \<or>
        truthy (getProp (formValues_of fx arg) ''city'') \<and> prefix sel ''#city'')"
proof -
  from assms have t: "t =
      fold (text_step (formValues_of fx arg)) (text_fields fx) [] @
             (if truthy (getProp (formValues_of fx arg) ''dob'')
              then [CyGet (form_at ''dob''), CySelectDate (getProp (formValues_of fx arg) ''dob'')]
              else []) @
             selectGender (getProp (formValues_of fx arg) ''gender'') @
             concat (map typeConfirmCycle
               (case getProp (formValues_of fx arg) ''subjects'' of JArr xs \<Rightarrow> xs | _ \<Rightarrow> [])) @
             fold hobby_step
               (case getProp (formValues_of fx arg) ''hobbies'' of JArr xs \<Rightarrow> xs | _ \<Rightarrow> []) [] @
             uploadPicture (getProp (formValues_of fx arg) ''picture'') @
             selectLocation (getProp (formValues_of fx arg) ''state'')
               (getProp (formValues_of fx arg) ''city'')"
    unfolding fill_cases by (simp split: if_splits)
  show ?thesis
    unfolding t interacts_with_append interacts_with_texts interacts_with_dob
      interacts_with_gender interacts_with_subjects interacts_with_hobbies
      interacts_with_picture interacts_with_location
    by (rule refl)
qed

lemma optional_controls_apart:
  assumes "g \<in> {''firstName'', ''lastName'', ''email'', ''mobile'', ''address''}"
  shows "\<not> interacts_with (control ''gender'') [CyGet (form_at g)]"
    and "\<not> interacts_with (control ''picture'') [CyGet (form_at g)]"
    and "\<not> interacts_with (control ''state'') [CyGet (form_at g)]"
    and "\<not> interacts_with (control ''city'') [CyGet (form_at g)]"
    and "\<not> interacts_with (control ''subjects'') [CyGet (form_at g)]"
    and "\<not> interacts_with (control ''subjectsDropDown'') [CyGet (form_at g)]"
    and "\<not> interacts_with (control ''hobbies'') [CyGet (form_at g)]"
    and "\<not> interacts_with (control ''dob'') [CyGet (form_at g)]"
  using assms
  by (elim insertE emptyE; simp add: control_def form_at_simps interacts_with_get)+

lemma texts_leave_optional:
  assumes "text_fixture_ok fx" and "c \<in> set non_text_controls"
  shows "\<not> (\<exists>f \<in> set (text_fields fx). truthy (getProp fv f) \<and>
    interacts_with (control c) [CyGet (form_at f)])"
proof
  assume "\<exists>f \<in> set (text_fields fx). truthy (getProp fv f) \<and>
    interacts_with (control c) [CyGet (form_at f)]"
  then obtain f where f: "f \<in> set (text_fields fx)"
    and i: "interacts_with (control c) [CyGet (form_at f)]"
    by blast
  from optional_controls_apart[OF text_control_cases[OF assms(1) f]] assms(2) i
  show False
    by (auto simp: non_text_controls_def)
qed

text \<open>
  What the commands of a returning \<^verbatim>\<open>fill\<close> address, and when it throws.
\<close>

lemma fill_returned_frame:
  assumes "text_fixture_ok fx"
  shows "(fill fx arg = Inl TypeError \<longleftrightarrow>
      \<not> (forEach_arg_ok (getProp (formValues_of fx arg) ''subjects'') \<and>
         forEach_arg_ok (getProp (formValues_of fx arg) ''hobbies''))) \<and>
    (\<forall>t. fill fx arg = Inr t \<longrightarrow>
      (\<forall>f \<in> set (text_fields fx).
         (interacts_with (control f) t \<longleftrightarrow> truthy (getProp (formValues_of fx arg) f)) \<and>
         (truthy (getProp (formValues_of fx arg) f) \<longrightarrow>
            typed_into (form_at f) (getProp (formValues_of fx arg) f) t)) \<and>
      (\<not> truthy (getProp (formValues_of fx arg) ''gender'') \<longrightarrow>
         \<not> interacts_with (control ''gender'') t) \<and>
      (\<not> truthy (getProp (formValues_of fx arg) ''picture'') \<longrightarrow>
         \<not> interacts_with (control ''picture'') t) \<and>
      (\<not> truthy (getProp (formValues_of fx arg) ''state'') \<longrightarrow>
         \<not> interacts_with (control ''state'') t \<and> \<not> interacts_with (control ''city'') t) \<and>
      (\<not> truthy (getProp (formValues_of fx arg) ''city'') \<longrightarrow>
         \<not> interacts_with (control ''city'') t) \<and>
      (\<not> truthy (getProp (formValues_of fx arg) ''subjects'') \<longrightarrow>
         \<not> interacts_with (control ''subjects'') t \<and>
         \<not> interacts_with (control ''subjectsDropDown'') t) \<and>
      (\<not> truthy (getProp (formValues_of fx arg) ''hobbies'') \<longrightarrow>
         \<not> interacts_with (control ''hobbies'') t) \<and>
      (\<not> truthy (getProp (formValues_of fx arg) ''dob'') \<longrightarrow>
         \<not> interacts_with (control ''dob'') t))"
proof (intro conjI allI impI ballI)
  show "fill fx arg = Inl TypeError \<longleftrightarrow>
      \<not> (forEach_arg_ok (getProp (formValues_of fx arg) ''subjects'') \<and>
         forEach_arg_ok (getProp (formValues_of fx arg) ''hobbies''))"
    unfolding fill_cases by simp
next
  fix t f
  assume t: "fill fx arg = Inr t" and f: "f \<in> set (text_fields fx)"
  let ?five = "{''firstName'', ''lastName'', ''email'', ''mobile'', ''address''}"
  from text_control_cases[OF assms f] have five: "f \<in> ?five" .
  have "(\<exists>g \<in> set (text_fields fx). truthy (getProp (formValues_of fx arg) g) \<and>
          interacts_with (control f) [CyGet (form_at g)]) \<longleftrightarrow>
        truthy (getProp (formValues_of fx arg) f)"
  proof
    assume "\<exists>g \<in> set (text_fields fx). truthy (getProp (formValues_of fx arg) g) \<and>
          interacts_with (control f) [CyGet (form_at g)]"
    then obtain g where g: "g \<in> set (text_fields fx)"
      and tg: "truthy (getProp (formValues_of fx arg) g)"
      and ig: "interacts_with (control f) [CyGet (form_at g)]"
      by blast
    from text_controls_distinct[OF five text_control_cases[OF assms g]] ig have "f = g"
      by simp
    with tg show "truthy (getProp (formValues_of fx arg) f)"
      by simp
  next
    assume "truthy (getProp (formValues_of fx arg) f)"
    with f text_controls_distinct[OF five five] show
      "\<exists>g \<in> set (text_fields fx). truthy (getProp (formValues_of fx arg) g) \<and>
          interacts_with (control f) [CyGet (form_at g)]"
      by blast
  qed
  then show "interacts_with (control f) t \<longleftrightarrow> truthy (getProp (formValues_of fx arg) f)"
    unfolding interacts_with_fill[OF t]
    using text_controls_apart[OF five] by simp
next
  fix t f
  assume t: "fill fx arg = Inr t" and f: "f \<in> set (text_fields fx)"
    and v: "truthy (getProp (formValues_of fx arg) f)"
  from t obtain rest where "t = fold (text_step (formValues_of fx arg)) (text_fields fx) [] @ rest"
    unfolding fill_cases by (auto split: if_splits)
  with typed_into_texts[OF f v] show "typed_into (form_at f) (getProp (formValues_of fx arg) f) t"
    by simp
next
  fix t
  assume t: "fill fx arg = Inr t" and v: "\<not> truthy (getProp (formValues_of fx arg) ''gender'')"
  have "\<not> (\<exists>f \<in> set (text_fields fx). truthy (getProp (formValues_of fx arg) f) \<and>
      interacts_with (control ''gender'') [CyGet (form_at f)])"
    by (rule texts_leave_optional[OF assms]) (simp add: non_text_controls_def)
  then show "\<not> interacts_with (control ''gender'') t"
    unfolding interacts_with_fill[OF t] using v 
    by (simp add: control_def form_at_simps)
next
  fix t
  assume t: "fill fx arg = Inr t" and v: "\<not> truthy (getProp (formValues_of fx arg) ''picture'')"
  have "\<not> (\<exists>f \<in> set (text_fields fx). truthy (getProp (formValues_of fx arg) f) \<and>
      interacts_with (control ''picture'') [CyGet (form_at f)])"
    by (rule texts_leave_optional[OF assms]) (simp add: non_text_controls_def)
  then show "\<not> interacts_with (control ''picture'') t"
    unfolding interacts_with_fill[OF t] using v 
    by (simp add: control_def form_at_simps)
next
  fix t
  assume t: "fill fx arg = Inr t" and v: "\<not> truthy (getProp (formValues_of fx arg) ''state'')"
  have "\<not> (\<exists>f \<in> set (text_fields fx). truthy (getProp (formValues_of fx arg) f) \<and>
      interacts_with (control ''state'') [CyGet (form_at f)])"
    by (rule texts_leave_optional[OF assms]) (simp add: non_text_controls_def)
  then show "\<not> interacts_with (control ''state'') t"
    unfolding interacts_with_fill[OF t] using v 
    by (simp add: control_def form_at_simps)
  have "\<not> (\<exists>f \<in> set (text_fields fx). truthy (getProp (formValues_of fx arg) f) \<and>
      interacts_with (control ''city'') [CyGet (form_at f)])"
    by (rule texts_leave_optional[OF assms]) (simp add: non_text_controls_def)
  then show "\<not> interacts_with (control ''city'') t"
    unfolding interacts_with_fill[OF t] using v 
    by (simp add: control_def form_at_simps)
next
  fix t
  assume t: "fill fx arg = Inr t" and v: "\<not> truthy (getProp (formValues_of fx arg) ''city'')"
  have "\<not> (\<exists>f \<in> set (text_fields fx). truthy (getProp (formValues_of fx arg) f) \<and>
      interacts_with (control ''city'') [CyGet (form_at f)])"
    by (rule texts_leave_optional[OF assms]) (simp add: non_text_controls_def)
  then show "\<not> interacts_with (control ''city'') t"
    unfolding interacts_with_fill[OF t] using v 
    by (simp add: control_def form_at_simps)
next
  fix t
  assume t: "fill fx arg = Inr t" and v: "\<not> truthy (getProp (formValues_of fx arg) ''subjects'')"
  from v have e: "(case getProp (formValues_of fx arg) ''subjects'' of JArr xs \<Rightarrow> xs | _ \<Rightarrow> []) = []"
    by (cases "getProp (formValues_of fx arg) ''subjects''") simp_all
  have "\<not> (\<exists>f \<in> set (text_fields fx). truthy (getProp (formValues_of fx arg) f) \<and>
      interacts_with (control ''subjects'') [CyGet (form_at f)])"
    by (rule texts_leave_optional[OF assms]) (simp add: non_text_controls_def)
  then show "\<not> interacts_with (control ''subjects'') t"
    unfolding interacts_with_fill[OF t] e 
    by (simp add: control_def form_at_simps)
  have "\<not> (\<exists>f \<in> set (text_fields fx). truthy (getProp (formValues_of fx arg) f) \<and>
      interacts_with (control ''subjectsDropDown'') [CyGet (form_at f)])"
    by (rule texts_leave_optional[OF assms]) (simp add: non_text_controls_def)
  then show "\<not> interacts_with (control ''subjectsDropDown'') t"
    unfolding interacts_with_fill[OF t] e 
    by (simp add: control_def form_at_simps)
next
  fix t
  assume t: "fill fx arg = Inr t" and v: "\<not> truthy (getProp (formValues_of fx arg) ''hobbies'')"
  from v have e: "(case getProp (formValues_of fx arg) ''hobbies'' of JArr xs \<Rightarrow> xs | _ \<Rightarrow> []) = []"
    by (cases "getProp (formValues_of fx arg) ''hobbies''") simp_all
  have "\<not> (\<exists>f \<in> set (text_fields fx). truthy (getProp (formValues_of fx arg) f) \<and>
      interacts_with (control ''hobbies'') [CyGet (form_at f)])"
    by (rule texts_leave_optional[OF assms]) (simp add: non_text_controls_def)
  then show "\<not> interacts_with (control ''hobbies'') t"
    unfolding interacts_with_fill[OF t] e 
    by (simp add: control_def form_at_simps)
next
  fix t
  assume t: "fill fx arg = Inr t" and v: "\<not> truthy (getProp (formValues_of fx arg) ''dob'')"
  have "\<not> (\<exists>f \<in> set (text_fields fx). truthy (getProp (formValues_of fx arg) f) \<and>
      interacts_with (control ''dob'') [CyGet (form_at f)])"
    by (rule texts_leave_optional[OF assms]) (simp add: non_text_controls_def)
  then show "\<not> interacts_with (control ''dob'') t"
    unfolding interacts_with_fill[OF t] using v 
    by (simp add: control_def form_at_simps)
qed

text \<open>
  Claim C8, as amended. Let the fixture of the text inputs be well formed, and let the
  subjects and the hobbies each be absent or a list. Then \<^verbatim>\<open>fill\<close> returns, and
  among the commands it runs: the control of each text field of the list is addressed
  exactly when the value of the field is truthy, and then the value is typed into it; and
  an optional field with a falsy or absent value (gender, picture, state, city, the city
  also when the state is falsy, subjects, hobbies, date of birth) has no command that
  addresses its control.
\<close>

theorem fill_frame:
  assumes "text_fixture_ok fx"
    and "forEach_arg_ok (getProp (formValues_of fx arg) ''subjects'')"
    and "forEach_arg_ok (getProp (formValues_of fx arg) ''hobbies'')"
  shows "\<exists>t. fill fx arg = Inr t \<and>
      (\<forall>f \<in> set (text_fields fx).
         (interacts_with (control f) t \<longleftrightarrow> truthy (getProp (formValues_of fx arg) f)) \<and>
         (truthy (getProp (formValues_of fx arg) f) \<longrightarrow>
            typed_into (form_at f) (getProp (formValues_of fx arg) f) t)) \<and>
      (\<not> truthy (getProp (formValues_of fx arg) ''gender'') \<longrightarrow>
         \<not> interacts_with (control ''gender'') t) \<and>
      (\<not> truthy (getProp (formValues_of fx arg) ''picture'') \<longrightarrow>
         \<not> interacts_with (control ''picture'') t) \<and>
      (\<not> truthy (getProp (formValues_of fx arg) ''state'') \<longrightarrow>
         \<not> interacts_with (control ''state'') t \<and> \<not> interacts_with (control ''city'') t) \<and>
      (\<not> truthy (getProp (formValues_of fx arg) ''city'') \<longrightarrow>
         \<not> interacts_with (control ''city'') t) \<and>
      (\<not> truthy (getProp (formValues_of fx arg) ''subjects'') \<longrightarrow>
         \<not> interacts_with (control ''subjects'') t \<and>
         \<not> interacts_with (control ''subjectsDropDown'') t) \<and>
      (\<not> truthy (getProp (formValues_of fx arg) ''hobbies'') \<longrightarrow>
         \<not> interacts_with (control ''hobbies'') t) \<and>
      (\<not> truthy (getProp (formValues_of fx arg) ''dob'') \<longrightarrow>
         \<not> interacts_with (control ''dob'') t)"
proof -
  from assms(2,3) obtain t where t: "fill fx arg = Inr t"
    unfolding fill_cases by simp
  note frame = fill_returned_frame[OF assms(1), THEN conjunct2, THEN spec, THEN mp, OF t]
  show ?thesis
    by (rule exI[of _ t], rule conjI[OF t frame])
qed

text \<open>
  A first name and a city without a state: the first name is typed, and the last name,
  the gender and the city are left alone.
\<close>

theorem fill_frame_witness:
  "text_fixture_ok sample_fixtures \<and>
   fill sample_fixtures (Some [''firstName'' \<mapsto> JStr ''Jane'', ''city'' \<mapsto> JStr ''Delhi'']) =
     Inr [CyWrap (JStr ''Jane''), CyGet (JStr ''#firstName''), CyType (JStr ''Jane''),
          CyWrap JUndefined] \<and>
   interacts_with (control ''firstName'')
     [CyWrap (JStr ''Jane''), CyGet (JStr ''#firstName''), CyType (JStr ''Jane''),
      CyWrap JUndefined] \<and>
   \<not> interacts_with (control ''lastName'')
     [CyWrap (JStr ''Jane''), CyGet (JStr ''#firstName''), CyType (JStr ''Jane''),
      CyWrap JUndefined] \<and>
   \<not> interacts_with (control ''gender'')
     [CyWrap (JStr ''Jane''), CyGet (JStr ''#firstName''), CyType (JStr ''Jane''),
      CyWrap JUndefined] \<and>
   \<not> interacts_with (control ''city'')
     [CyWrap (JStr ''Jane''), CyGet (JStr ''#firstName''), CyType (JStr ''Jane''),
      CyWrap JUndefined]"
proof -
  have ok: "text_fixture_ok sample_fixtures"
    by (simp add: text_fixture_ok_def sample_fixtures_def form_def non_text_controls_def)
  have run: "fill sample_fixtures
      (Some [''firstName'' \<mapsto> JStr ''Jane'', ''city'' \<mapsto> JStr ''Delhi'']) =
     Inr [CyWrap (JStr ''Jane''), CyGet (JStr ''#firstName''), CyType (JStr ''Jane''),
          CyWrap JUndefined]"
    by (simp add: fill_def sample_fixtures_def text_step_def getProp_def form_at_simps
        selectGender_def selectSubjects_def selectHobbies_def uploadPicture_def
        selectLocation_def Let_def)
  have subjects: "forEach_arg_ok (getProp (formValues_of sample_fixtures
      (Some [''firstName'' \<mapsto> JStr ''Jane'', ''city'' \<mapsto> JStr ''Delhi''])) ''subjects'')"
    by (simp add: formValues_of_def getProp_def)
  have hobbies: "forEach_arg_ok (getProp (formValues_of sample_fixtures
      (Some [''firstName'' \<mapsto> JStr ''Jane'', ''city'' \<mapsto> JStr ''Delhi''])) ''hobbies'')"
    by (simp add: formValues_of_def getProp_def)
  from fill_frame [OF ok subjects hobbies] ok run
  show ?thesis
    by (simp add: formValues_of_def getProp_def sample_fixtures_def)
qed

text \<open>
  Claim C8 as stated fails. With the form values \<^verbatim>\<open>{firstName: 'Jane', subjects: null}\<close>
  the first name is truthy, and \<^verbatim>\<open>selectSubjects(null)\<close> throws at its \<^verbatim>\<open>forEach\<close>
  (the default \<^verbatim>\<open>[]\<close> stands in for \<^verbatim>\<open>undefined\<close> only): the test fails before any
  command has run, and the first name is never typed.
\<close>

theorem fill_null_subjects_counterexample:
  "truthy (getProp [''firstName'' \<mapsto> JStr ''Jane'', ''subjects'' \<mapsto> JNull] ''firstName'') \<and>
   \<not> truthy (getProp [''firstName'' \<mapsto> JStr ''Jane'', ''subjects'' \<mapsto> JNull] ''subjects'') \<and>
   fill sample_fixtures (Some [''firstName'' \<mapsto> JStr ''Jane'', ''subjects'' \<mapsto> JNull]) =
     Inl TypeError"
  by (simp add: fill_def sample_fixtures_def getProp_def selectSubjects_def Let_def)

section \<open>Properties of the validation\<close>

lemma push_simps [simp]:
  "populatedFields (push_populated l v st) = populatedFields st @ [\<lparr>label = l, expValue = v\<rparr>]"
  "missingFields (push_populated l v st) = missingFields st"
  "populatedFields (push_missing l st) = populatedFields st"
  "missingFields (push_missing l st) = missingFields st @ [l]"
  by (simp_all add: push_populated_def push_missing_def)

subsection \<open>Direct fields\<close>

lemma fold_direct_populated:
  "populatedFields (fold (direct_step ev) ms st) =
     populatedFields st @
     map (\<lambda>m. \<lparr>label = label m, expValue = getProp ev (selector m)\<rparr>)
       (filter (\<lambda>m. truthy (getProp ev (selector m))) ms)"
  by (induction ms arbitrary: st) (simp_all add: direct_step_def)

lemma fold_direct_missing:
  "missingFields (fold (direct_step ev) ms st) =
     missingFields st @ map label (filter (\<lambda>m. \<not> truthy (getProp ev (selector m))) ms)"
  by (induction ms arbitrary: st) (simp_all add: direct_step_def)

subsection \<open>Concatenated fields\<close>

lemma join_strings_Cons:
  "join_strings d (p # ps) = (if ps = [] then p else p @ d @ join_strings d ps)"
  by (cases ps) simp_all

lemma selector_step_part:
  "selector_step ev d sel acc =
     (if concat_part ev d sel = [] then acc
      else if acc = [] then concat_part ev d sel
      else acc @ d @ concat_part ev d sel)"
  by (cases "getProp ev sel")
     (simp_all add: selector_step_def concat_value_def concat_part_def Let_def)

lemma fold_selector_step:
  "fold (selector_step ev d) sels acc =
     (if filter (\<lambda>p. p \<noteq> []) (map (concat_part ev d) sels) = [] then acc
      else if acc = [] then join_strings d (filter (\<lambda>p. p \<noteq> []) (map (concat_part ev d) sels))
      else acc @ d @ join_strings d (filter (\<lambda>p. p \<noteq> []) (map (concat_part ev d) sels)))"
proof (induction sels arbitrary: acc)
  case Nil
  show ?case by simp
next
  case (Cons sel sels)
  have step: "fold (selector_step ev d) (sel # sels) acc =
      fold (selector_step ev d) sels (selector_step ev d sel acc)"
    by simp
  show ?case
    unfolding step Cons.IH
    by (simp add: selector_step_part join_strings_Cons)
qed

lemma concat_expValue_join: "concat_expValue ev m = spec_concat ev m"
  by (simp add: concat_expValue_def spec_concat_def fold_selector_step)

text \<open>
  Claim C2. The expected string of a concatenated mapping is built from the values of
  its selectors in order, a list being joined with the delimiter first: the non-empty
  parts, with the delimiter between them and none in front.
\<close>

theorem concat_expValue_spec:
  "concat_expValue expectedValues m =
     join_strings (delimeter m)
       (filter (\<lambda>p. p \<noteq> []) (map (concat_part expectedValues (delimeter m)) (selectors m)))"
  by (simp add: concat_expValue_join spec_concat_def)

text \<open>The example of the specification: \<^verbatim>\<open>X\<close> and the list \<^verbatim>\<open>Y\<close>, \<^verbatim>\<open>Z\<close> with a space.\<close>

theorem concat_expValue_spec_witness:
  "concat_expValue [''a'' \<mapsto> JStr ''X'', ''b'' \<mapsto> JArr [JStr ''Y'', JStr ''Z'']]
     \<lparr>label = ''Name'', selectors = [''a'', ''b''], delimeter = '' ''\<rparr> = ''X Y Z''"
  using concat_expValue_spec [of "[''a'' \<mapsto> JStr ''X'', ''b'' \<mapsto> JArr [JStr ''Y'', JStr ''Z'']]"
     "\<lparr>label = ''Name'', selectors = [''a'', ''b''], delimeter = '' ''\<rparr>"]
  by (simp add: concat_part_def getProp_def array_join_def)

lemma fold_concat_populated:
  "populatedFields (fold (concat_step ev) ms st) =
     populatedFields st @
     map (\<lambda>m. \<lparr>label = label m, expValue = JStr (concat_expValue ev m)\<rparr>)
       (filter (\<lambda>m. concat_expValue ev m \<noteq> []) ms)"
  by (induction ms arbitrary: st) (simp_all add: concat_step_def Let_def)

lemma fold_concat_missing:
  "missingFields (fold (concat_step ev) ms st) =
     missingFields st @ map label (filter (\<lambda>m. concat_expValue ev m = []) ms)"
  by (induction ms arbitrary: st) (simp_all add: concat_step_def Let_def)

lemma concat_part_empty: "falsy_or_empty (getProp ev sel) \<Longrightarrow> concat_part ev d sel = []"
  by (cases "getProp ev sel") (simp_all add: concat_part_def array_join_def)

lemma concat_expValue_all_empty:
  assumes "list_all (\<lambda>s. falsy_or_empty (getProp ev s)) (selectors m)"
  shows "concat_expValue ev m = []"
proof -
  have "filter (\<lambda>p. p \<noteq> []) (map (concat_part ev (delimeter m)) (selectors m)) = []"
    using assms by (auto simp: concat_part_empty list_all_iff filter_empty_conv)
  then show ?thesis by (simp add: concat_expValue_join spec_concat_def)
qed

subsection \<open>List fields\<close>

lemma fold_push_populated:
  "fold (push_populated l) xs st =
     st\<lparr>populatedFields := populatedFields st @ map (\<lambda>v. \<lparr>label = l, expValue = v\<rparr>) xs\<rparr>"
  by (induction xs arbitrary: st) (simp_all add: push_populated_def)

lemma list_step_ok:
  "list_value_ok (getProp ev (selector m)) \<Longrightarrow>
   list_step ev m st =
     Inr \<lparr>populatedFields = populatedFields st @ list_records ev m,
          missingFields = missingFields st @
            (if truthy (getProp ev (selector m)) then [] else [label m])\<rparr>"
  by (cases "getProp ev (selector m)")
     (simp_all add: list_step_def list_records_def fold_push_populated push_missing_def)

lemma list_step_throws:
  "\<not> list_value_ok (getProp ev (selector m)) \<Longrightarrow> list_step ev m st = Inl TypeError"
  by (cases "getProp ev (selector m)") (simp_all add: list_step_def)

lemma forEach_list_ok:
  "list_all (\<lambda>m. list_value_ok (getProp ev (selector m))) ms \<Longrightarrow>
   forEach_throwing (list_step ev) ms st =
     Inr \<lparr>populatedFields = populatedFields st @ concat (map (list_records ev) ms),
          missingFields = missingFields st @
            map label (filter (\<lambda>m. \<not> truthy (getProp ev (selector m))) ms)\<rparr>"
  by (induction ms arbitrary: st) (simp_all add: list_step_ok)

lemma forEach_list_throws:
  "\<not> list_all (\<lambda>m. list_value_ok (getProp ev (selector m))) ms \<Longrightarrow>
   forEach_throwing (list_step ev) ms st = Inl TypeError"
proof (induction ms arbitrary: st)
  case Nil
  then show ?case by simp
next
  case (Cons m ms)
  show ?case
  proof (cases "list_value_ok (getProp ev (selector m))")
    case True
    with Cons show ?thesis by (simp add: list_step_ok)
  next
    case False
    then show ?thesis by (simp add: list_step_throws)
  qed
qed

text \<open>
  What the claim C1 says of a non-empty list and of a falsy value holds: one record per
  element in the order of the list, and the label among the missing ones.
\<close>

lemma list_step_nonempty:
  "getProp ev (selector m) = JArr (x # xs) \<Longrightarrow>
   list_step ev m st =
     Inr (st\<lparr>populatedFields :=
            populatedFields st @ map (\<lambda>v. \<lparr>label = label m, expValue = v\<rparr>) (x # xs)\<rparr>)"
  by (simp add: list_step_def fold_push_populated del: fold_simps)

lemma list_step_falsy:
  "\<not> truthy (getProp ev (selector m)) \<Longrightarrow> list_step ev m st = Inr (push_missing (label m) st)"
  by (simp add: list_step_def)

text \<open>
  Claim C1, at the empty list. The empty array is truthy, so the loop over its elements
  runs and pushes nothing: the label of the mapping is neither populated nor missing.
  With the expected values \<^verbatim>\<open>{hobbies: []}\<close> the label \<^verbatim>\<open>Hobbies\<close> is in neither
  array of the result.
\<close>

theorem list_empty_array_unclassified:
  "submissionFields sample_mapping sample_clock [''hobbies'' \<mapsto> JArr []] =
     Inr \<lparr>populatedFields =
            [\<lparr>label = ''Date of Birth'', expValue = JStr ''03 November,2026''\<rparr>],
          missingFields = [''Student Email'', ''Student Name'', ''Picture'']\<rparr>"
  by (simp add: submissionFields_def data_driven_def sample_mapping_def sample_clock_def
      direct_step_def concat_step_def concat_expValue_def selector_step_def concat_value_def
      list_step_def picture_step_def dob_step_def dayjs_def format_DD_MMMM_YYYY_def
      padStart_def show_nat.simps getProp_def push_populated_def push_missing_def)


subsection \<open>The data-driven mappings together\<close>

lemma data_driven_ok:
  assumes "list_values_ok sm ev"
  shows "data_driven sm ev =
     Inr \<lparr>populatedFields =
            map (\<lambda>m. \<lparr>label = label m, expValue = getProp ev (selector m)\<rparr>)
              (filter (\<lambda>m. truthy (getProp ev (selector m))) (sm_direct sm)) @
            map (\<lambda>m. \<lparr>label = label m, expValue = JStr (concat_expValue ev m)\<rparr>)
              (filter (\<lambda>m. concat_expValue ev m \<noteq> []) (sm_concat sm)) @
            concat (map (list_records ev) (sm_list sm)),
          missingFields =
            map label (filter (\<lambda>m. \<not> truthy (getProp ev (selector m))) (sm_direct sm)) @
            map label (filter (\<lambda>m. concat_expValue ev m = []) (sm_concat sm)) @
            map label (filter (\<lambda>m. \<not> truthy (getProp ev (selector m))) (sm_list sm))\<rparr>"
  using assms
  by (simp add: data_driven_def list_values_ok_def forEach_list_ok fold_direct_populated
      fold_direct_missing fold_concat_populated fold_concat_missing)

lemma data_driven_throws:
  "\<not> list_values_ok sm ev \<Longrightarrow> data_driven sm ev = Inl TypeError"
  by (simp add: data_driven_def list_values_ok_def forEach_list_throws)

lemma label_list_records: "p \<in> set (list_records ev m) \<Longrightarrow> label p = label m"
  by (cases "getProp ev (selector m)") (auto simp: list_records_def)

lemma labels_concat_list_records:
  "label ` set (concat (map (list_records ev) ms)) \<subseteq> label ` set ms"
  using label_list_records by fastforce

lemma data_driven_populated_labels:
  assumes "data_driven sm ev = Inr st"
  shows "label ` set (populatedFields st) \<subseteq>
    label ` set (sm_direct sm) \<union> label ` set (sm_concat sm) \<union> label ` set (sm_list sm)"
proof (cases "list_values_ok sm ev")
  case True
  have a: "label ` set (map (\<lambda>m. \<lparr>label = label m, expValue = getProp ev (selector m)\<rparr>)
              (filter (\<lambda>m. truthy (getProp ev (selector m))) (sm_direct sm)))
           \<subseteq> label ` set (sm_direct sm)"
    by auto
  have b: "label ` set (map (\<lambda>m. \<lparr>label = label m, expValue = JStr (concat_expValue ev m)\<rparr>)
              (filter (\<lambda>m. concat_expValue ev m \<noteq> []) (sm_concat sm)))
           \<subseteq> label ` set (sm_concat sm)"
    by auto
  from assms data_driven_ok[OF True] have "populatedFields st =
      map (\<lambda>m. \<lparr>label = label m, expValue = getProp ev (selector m)\<rparr>)
              (filter (\<lambda>m. truthy (getProp ev (selector m))) (sm_direct sm)) @
      map (\<lambda>m. \<lparr>label = label m, expValue = JStr (concat_expValue ev m)\<rparr>)
              (filter (\<lambda>m. concat_expValue ev m \<noteq> []) (sm_concat sm)) @
      concat (map (list_records ev) (sm_list sm))"
    by auto
  then show ?thesis
    using a b labels_concat_list_records[of ev "sm_list sm"]
    by (simp only: set_append image_Un) blast
next
  case False
  with assms data_driven_throws[OF False] show ?thesis by simp
qed

lemma data_driven_missing_labels:
  assumes "data_driven sm ev = Inr st"
  shows "set (missingFields st) \<subseteq>
    label ` set (sm_direct sm) \<union> label ` set (sm_concat sm) \<union> label ` set (sm_list sm)"
proof (cases "list_values_ok sm ev")
  case True
  from assms data_driven_ok[OF True] show ?thesis
    by auto
next
  case False
  with assms data_driven_throws[OF False] show ?thesis by simp
qed

lemma data_driven_concat_missing:
  assumes "data_driven sm ev = Inr st" and "m \<in> set (sm_concat sm)"
    and "concat_expValue ev m = []"
  shows "label m \<in> set (missingFields st)"
proof (cases "list_values_ok sm ev")
  case True
  from assms data_driven_ok[OF True] show ?thesis
    by auto
next
  case False
  with assms data_driven_throws[OF False] show ?thesis by simp
qed

subsection \<open>The picture\<close>

lemma last_scan_eq:
  "last_scan x ys i found =
     (if x \<in> set ys
      then int i + int (length ys) - 1 - int (length (takeWhile (\<lambda>c. c \<noteq> x) (rev ys)))
      else found)"
proof (induction ys arbitrary: i found)
  case Nil
  show ?case by simp
next
  case (Cons y ys)
  show ?case
  proof (cases "x \<in> set ys")
    case True
    then have "takeWhile (\<lambda>c. c \<noteq> x) (rev ys @ [y]) = takeWhile (\<lambda>c. c \<noteq> x) (rev ys)"
      by (intro takeWhile_append1[of x]) simp_all
    with True show ?thesis by (simp add: Cons.IH)
  next
    case False
    then have "takeWhile (\<lambda>c. c \<noteq> x) (rev ys @ [y]) = rev ys @ takeWhile (\<lambda>c. c \<noteq> x) [y]"
      by (intro takeWhile_append2) auto
    then have "length (takeWhile (\<lambda>c. c \<noteq> x) (rev ys @ [y])) =
        length ys + (if y = x then 0 else 1)"
      by simp
    with False show ?thesis by (auto simp: Cons.IH)
  qed
qed

lemma basename_no_slash: "CHR ''/'' \<notin> set s \<Longrightarrow> basename s = s"
proof -
  assume a: "CHR ''/'' \<notin> set s"
  have tw: "takeWhile (\<lambda>c. c \<noteq> CHR ''/'') (rev s) = rev s"
    by (rule takeWhile_eq_all_conv[THEN iffD2]) (use a in auto)
  show ?thesis
    unfolding basename_def tw by simp
qed

lemma basename_empty_iff: "s \<noteq> [] \<Longrightarrow> basename s = [] \<longleftrightarrow> last s = CHR ''/''"
  by (simp add: basename_def takeWhile_eq_Nil_iff hd_rev)

lemma slice_lastIndexOf_basename:
  "slice s (lastIndexOf s (CHR ''/'') + 1) = basename s"
proof (cases "CHR ''/'' \<in> set s")
  case True
  let ?tw = "takeWhile (\<lambda>c. c \<noteq> CHR ''/'') (rev s)"
  have "dropWhile (\<lambda>c. c \<noteq> CHR ''/'') (rev s) \<noteq> []"
    using True by (simp add: dropWhile_eq_Nil_conv)
  moreover have "length ?tw + length (dropWhile (\<lambda>c. c \<noteq> CHR ''/'') (rev s)) = length s"
    by (metis length_append length_rev takeWhile_dropWhile_id)
  ultimately have le: "length ?tw < length s"
    by (cases "dropWhile (\<lambda>c. c \<noteq> CHR ''/'') (rev s)") simp_all
  have idx: "lastIndexOf s (CHR ''/'') + 1 = int (length s - length ?tw)"
    using True le by (simp add: lastIndexOf_def last_scan_eq)
  have "slice s (lastIndexOf s (CHR ''/'') + 1) = drop (length s - length ?tw) s"
    unfolding idx by (simp add: slice_def Let_def)
  also have "\<dots> = rev (take (length ?tw) (rev s))"
    by (simp add: rev_take)
  also have "take (length ?tw) (rev s) = ?tw"
    by (metis append_eq_conv_conj takeWhile_dropWhile_id)
  finally show ?thesis by (simp add: basename_def)
next
  case False
  have "slice s (lastIndexOf s (CHR ''/'') + 1) = s"
    using False by (simp add: lastIndexOf_def last_scan_eq slice_def)
  with basename_no_slash[OF False] show ?thesis by simp
qed

lemma picture_step_string:
  "getProp ev ''picture'' = JStr s \<Longrightarrow> s \<noteq> [] \<Longrightarrow>
   picture_step sm ev st = Inr (push_populated (sm_picture sm) (JStr (basename s)) st)"
  by (simp add: picture_step_def slice_lastIndexOf_basename)

lemma picture_step_falsy:
  "\<not> truthy (getProp ev ''picture'') \<Longrightarrow>
   picture_step sm ev st = Inr (push_missing (sm_picture sm) st)"
  by (simp add: picture_step_def)

lemma picture_step_ok:
  "picture_value_ok (getProp ev ''picture'') \<Longrightarrow>
   \<exists>st'. picture_step sm ev st = Inr st' \<and>
     label ` set (populatedFields st') \<subseteq> insert (sm_picture sm) (label ` set (populatedFields st)) \<and>
     set (missingFields st') \<subseteq> insert (sm_picture sm) (set (missingFields st)) \<and>
     set (missingFields st) \<subseteq> set (missingFields st')"
  by (cases "getProp ev ''picture''") (auto simp: picture_step_def)

text \<open>
  Claim C5. When the data-driven mappings throw nothing, a picture that is a non-empty
  string adds one populated record under the picture label, whose value is the base name
  of the path, and nothing to the missing labels; a falsy picture adds the picture label
  to the missing ones and no record. (The record of the date of birth follows.)
\<close>

theorem picture_basename_or_missing:
  assumes "list_values_ok sm expectedValues"
  shows "\<exists>st. data_driven sm expectedValues = Inr st \<and>
     (\<forall>s. getProp expectedValues ''picture'' = JStr s \<and> s \<noteq> [] \<longrightarrow>
        submissionFields sm lib expectedValues =
          Inr \<lparr>populatedFields =
                 populatedFields st @
                   [\<lparr>label = sm_picture sm, expValue = JStr (basename s)\<rparr>,
                    \<lparr>label = sm_dob sm, expValue =
                       JStr (format_DD_MMMM_YYYY (dayjs lib (getProp expectedValues ''dob'')))\<rparr>],
               missingFields = missingFields st\<rparr>) \<and>
     (\<not> truthy (getProp expectedValues ''picture'') \<longrightarrow>
        submissionFields sm lib expectedValues =
          Inr \<lparr>populatedFields =
                 populatedFields st @
                   [\<lparr>label = sm_dob sm, expValue =
                       JStr (format_DD_MMMM_YYYY (dayjs lib (getProp expectedValues ''dob'')))\<rparr>],
               missingFields = missingFields st @ [sm_picture sm]\<rparr>)"
proof -
  from data_driven_ok[OF assms] obtain st where dd: "data_driven sm expectedValues = Inr st"
    by blast
  have "submissionFields sm lib expectedValues =
          Inr \<lparr>populatedFields =
                 populatedFields st @
                   [\<lparr>label = sm_picture sm, expValue = JStr (basename s)\<rparr>,
                    \<lparr>label = sm_dob sm, expValue =
                       JStr (format_DD_MMMM_YYYY (dayjs lib (getProp expectedValues ''dob'')))\<rparr>],
               missingFields = missingFields st\<rparr>"
    if "getProp expectedValues ''picture'' = JStr s" and "s \<noteq> []" for s
    using that dd
    by (simp add: submissionFields_def picture_step_string dob_step_def push_populated_def)
  moreover have "submissionFields sm lib expectedValues =
          Inr \<lparr>populatedFields =
                 populatedFields st @
                   [\<lparr>label = sm_dob sm, expValue =
                       JStr (format_DD_MMMM_YYYY (dayjs lib (getProp expectedValues ''dob'')))\<rparr>],
               missingFields = missingFields st @ [sm_picture sm]\<rparr>"
    if "\<not> truthy (getProp expectedValues ''picture'')"
    using that dd
    by (simp add: submissionFields_def picture_step_falsy dob_step_def push_populated_def
        push_missing_def)
  ultimately show ?thesis
    using dd by blast
qed

text \<open>
  The path of the specification: the record of the picture holds \<^verbatim>\<open>photo.png\<close>.
\<close>

theorem picture_basename_or_missing_witness:
  "submissionFields sample_mapping sample_clock
      [''picture'' \<mapsto> JStr ''/fixtures/images/photo.png''] =
     Inr \<lparr>populatedFields =
            [\<lparr>label = ''Picture'', expValue = JStr ''photo.png''\<rparr>,
             \<lparr>label = ''Date of Birth'', expValue = JStr ''03 November,2026''\<rparr>],
          missingFields = [''Student Email'', ''Student Name'', ''Hobbies'']\<rparr> \<and>
   submissionFields sample_mapping sample_clock Map.empty =
     Inr \<lparr>populatedFields =
            [\<lparr>label = ''Date of Birth'', expValue = JStr ''03 November,2026''\<rparr>],
          missingFields = [''Student Email'', ''Student Name'', ''Hobbies'', ''Picture'']\<rparr>"
  using picture_basename_or_missing
      [of sample_mapping "[''picture'' \<mapsto> JStr ''/fixtures/images/photo.png'']" sample_clock]
    picture_basename_or_missing [of sample_mapping Map.empty sample_clock]
  by (simp add: submissionFields_def data_driven_def sample_mapping_def sample_clock_def
      direct_step_def concat_step_def concat_expValue_def selector_step_def concat_value_def
      list_step_def picture_step_def dob_step_def dayjs_def format_DD_MMMM_YYYY_def
      padStart_def show_nat.simps getProp_def push_populated_def push_missing_def
      slice_def lastIndexOf_def)

text \<open>
  Claim C10, as amended. For a picture that is a non-empty string the extraction never
  fails; when the string has no slash the value is the whole string; the value is empty
  exactly when the string ends with a slash.
\<close>

theorem picture_without_slash:
  assumes "getProp expectedValues ''picture'' = JStr s" and "s \<noteq> []"
  shows "\<exists>b. picture_step sm expectedValues st = Inr (push_populated (sm_picture sm) (JStr b) st) \<and>
     (CHR ''/'' \<notin> set s \<longrightarrow> b = s) \<and>
     (b = [] \<longleftrightarrow> last s = CHR ''/'')"
  using assms picture_step_string[OF assms] basename_no_slash[of s] basename_empty_iff[of s]
  by auto

theorem picture_without_slash_witness:
  "picture_step sample_mapping [''picture'' \<mapsto> JStr ''photo.png'']
      \<lparr>populatedFields = [], missingFields = []\<rparr> =
     Inr \<lparr>populatedFields = [\<lparr>label = ''Picture'', expValue = JStr ''photo.png''\<rparr>],
          missingFields = []\<rparr>"
  using picture_without_slash
      [of "[''picture'' \<mapsto> JStr ''photo.png'']" "''photo.png''" sample_mapping
          "\<lparr>populatedFields = [], missingFields = []\<rparr>"]
  by (simp add: getProp_def push_populated_def sample_mapping_def)

text \<open>
  Claim C10 as stated fails: the non-empty path \<^verbatim>\<open>images/\<close> ends with a slash, and
  the value of its record is the empty string.
\<close>

theorem picture_trailing_slash_counterexample:
  "picture_step sample_mapping [''picture'' \<mapsto> JStr ''images/'']
      \<lparr>populatedFields = [], missingFields = []\<rparr> =
     Inr \<lparr>populatedFields = [\<lparr>label = ''Picture'', expValue = JStr ''''\<rparr>],
          missingFields = []\<rparr>"
  by (simp add: picture_step_def getProp_def push_populated_def sample_mapping_def
      slice_def lastIndexOf_def)

subsection \<open>The date of birth and the whole result\<close>

text \<open>
  Claim C3. When every selector of a concatenated mapping has a falsy value or the empty
  list, the step of that mapping adds its label to the missing ones and no record to the
  populated ones; and for a mapping of the fixture, on well-typed expected values, the
  label is among the missing labels of the result.
\<close>

theorem concat_all_empty_missing:
  assumes "list_all (\<lambda>s. falsy_or_empty (getProp expectedValues s)) (selectors m)"
  shows "concat_step expectedValues m st = push_missing (label m) st \<and>
     (m \<in> set (sm_concat sm) \<and> well_typed sm expectedValues \<longrightarrow>
        (\<exists>r. submissionFields sm lib expectedValues = Inr r \<and>
             label m \<in> set (missingFields r)))"
proof -
  have empty: "concat_expValue expectedValues m = []"
    using assms by (rule concat_expValue_all_empty)
  then have step: "concat_step expectedValues m st = push_missing (label m) st"
    by (simp add: concat_step_def)
  have "\<exists>r. submissionFields sm lib expectedValues = Inr r \<and> label m \<in> set (missingFields r)"
    if m: "m \<in> set (sm_concat sm)" and wt: "well_typed sm expectedValues"
  proof -
    from wt have ok: "list_values_ok sm expectedValues"
      and pic: "picture_value_ok (getProp expectedValues ''picture'')"
      by (simp_all add: well_typed_def)
    from data_driven_ok[OF ok] obtain st3 where dd: "data_driven sm expectedValues = Inr st3"
      by blast
    from picture_step_ok[OF pic, of sm st3] obtain st4 where
      ps: "picture_step sm expectedValues st3 = Inr st4"
      and keep: "set (missingFields st3) \<subseteq> set (missingFields st4)"
      by blast
    from data_driven_concat_missing[OF dd m empty] keep
    have "label m \<in> set (missingFields st4)"
      by blast
    then show ?thesis
      using dd ps by (simp add: submissionFields_def dob_step_def)
  qed
  with step show ?thesis
    by blast
qed

text \<open>Nobody gave a name: the label of the name is missing.\<close>

theorem concat_all_empty_missing_witness:
  "concat_step [''firstName'' \<mapsto> JStr '''', ''lastName'' \<mapsto> JArr []]
      \<lparr>label = ''Student Name'', selectors = [''firstName'', ''lastName''], delimeter = '' ''\<rparr>
      \<lparr>populatedFields = [], missingFields = []\<rparr> =
     \<lparr>populatedFields = [], missingFields = [''Student Name'']\<rparr> \<and>
   (\<exists>r. submissionFields sample_mapping sample_clock
           [''firstName'' \<mapsto> JStr '''', ''lastName'' \<mapsto> JArr []] = Inr r \<and>
        ''Student Name'' \<in> set (missingFields r))"
  using concat_all_empty_missing
      [of "[''firstName'' \<mapsto> JStr '''', ''lastName'' \<mapsto> JArr []]"
          "\<lparr>label = ''Student Name'', selectors = [''firstName'', ''lastName''],
            delimeter = '' ''\<rparr>"
          "\<lparr>populatedFields = [], missingFields = []\<rparr>" sample_mapping sample_clock]
  by (simp add: getProp_def push_missing_def sample_mapping_def well_typed_def
      list_values_ok_def)

text \<open>
  Claim C4. On well-typed expected values, and with a label of the date of birth that no
  other entry of the mapping uses, the result has exactly one populated record under
  that label and the label is not missing. Its value is the formatted current date when
  the key \<^verbatim>\<open>dob\<close> is absent, and the formatted date of its value when it is present.
\<close>

theorem dob_always_populated:
  assumes "well_typed sm expectedValues"
    and "sm_dob sm \<notin> set (other_labels sm)"
  shows "\<exists>r. submissionFields sm lib expectedValues = Inr r \<and>
     filter (\<lambda>p. label p = sm_dob sm) (populatedFields r) =
       [\<lparr>label = sm_dob sm,
         expValue = JStr (format_DD_MMMM_YYYY
           (case expectedValues ''dob'' of
              None \<Rightarrow> Some (today lib)
            | Some v \<Rightarrow> dayjs lib v))\<rparr>] \<and>
     sm_dob sm \<notin> set (missingFields r)"
proof -
  from assms(1) have ok: "list_values_ok sm expectedValues"
    and pic: "picture_value_ok (getProp expectedValues ''picture'')"
    by (simp_all add: well_typed_def)
  from data_driven_ok[OF ok] obtain st3 where dd: "data_driven sm expectedValues = Inr st3"
    by blast
  from picture_step_ok[OF pic, of sm st3] obtain st4 where
    ps: "picture_step sm expectedValues st3 = Inr st4"
    and pl: "label ` set (populatedFields st4) \<subseteq>
      insert (sm_picture sm) (label ` set (populatedFields st3))"
    and ml: "set (missingFields st4) \<subseteq> insert (sm_picture sm) (set (missingFields st3))"
    by blast
  have pop4: "\<forall>p \<in> set (populatedFields st4). label p \<noteq> sm_dob sm"
  proof
    fix p assume a: "p \<in> set (populatedFields st4)"
    with pl have "label p = sm_picture sm \<or> label p \<in> label ` set (populatedFields st3)"
      by auto
    with data_driven_populated_labels[OF dd] have "label p \<in> set (other_labels sm)"
      by (auto simp: other_labels_def)
    with assms(2) show "label p \<noteq> sm_dob sm"
      by auto
  qed
  have miss4: "sm_dob sm \<notin> set (missingFields st4)"
  proof
    assume "sm_dob sm \<in> set (missingFields st4)"
    with ml have "sm_dob sm = sm_picture sm \<or> sm_dob sm \<in> set (missingFields st3)"
      by auto
    with data_driven_missing_labels[OF dd] have "sm_dob sm \<in> set (other_labels sm)"
      by (auto simp: other_labels_def)
    with assms(2) show False by simp
  qed
  have val: "dayjs lib (getProp expectedValues ''dob'') =
      (case expectedValues ''dob'' of None \<Rightarrow> Some (today lib) | Some v \<Rightarrow> dayjs lib v)"
    by (simp add: getProp_def dayjs_def split: option.splits)
  have filt: "filter (\<lambda>p. label p = sm_dob sm) (populatedFields st4) = []"
    using pop4 by (simp add: filter_empty_conv)
  show ?thesis
    using dd ps miss4 filt by (simp add: submissionFields_def dob_step_def val)
qed

text \<open>
  With no expected value at all and the clock at 3 November 2026, the record of the date
  of birth holds that day.
\<close>

theorem dob_always_populated_witness:
  "\<exists>r. submissionFields sample_mapping sample_clock Map.empty = Inr r \<and>
     filter (\<lambda>p. label p = ''Date of Birth'') (populatedFields r) =
       [\<lparr>label = ''Date of Birth'', expValue = JStr ''03 November,2026''\<rparr>] \<and>
     ''Date of Birth'' \<notin> set (missingFields r)"
  using dob_always_populated [of sample_mapping Map.empty sample_clock]
  by (simp add: well_typed_def list_values_ok_def other_labels_def sample_mapping_def
      sample_clock_def getProp_def format_DD_MMMM_YYYY_def padStart_def show_nat.simps)






end
